theory Spec2Isabelle
  imports Complex_Main "HOL-Library.List_Lexorder" "HOL-Library.Char_ord"
begin

section \<open>Arbitrage scanner: the calculators\<close>

text \<open>
  A shallow embedding of \<^verbatim>\<open>src/arb_scanner.py\<close>. Python's \<^verbatim>\<open>float\<close> is read as
  \<^typ>\<open>real\<close>: odds, stakes, lines and percentages are exact real numbers, so the
  statements below are about the arithmetic the code writes down, not about its
  rounding. What Python raises is a value: a division is \<open>fdiv\<close>, which fails on a
  zero divisor, and every function that divides returns \<open>py_error + 'a\<close>. A function
  that returns \<^verbatim>\<open>None\<close> for "no arbitrage" returns \<open>Inr None\<close>.
\<close>

subsection \<open>Errors and Python primitives\<close>

datatype py_error = ZeroDivisionError | ValueError | IndexError

definition bind :: "py_error + 'a \<Rightarrow> ('a \<Rightarrow> py_error + 'b) \<Rightarrow> py_error + 'b" where
  "bind m f = (case m of Inl e \<Rightarrow> Inl e | Inr x \<Rightarrow> f x)"

definition fdiv :: "real \<Rightarrow> real \<Rightarrow> py_error + real" where
  \<comment> \<open>\<^verbatim>\<open>a / b\<close> on floats\<close>
  "fdiv a b = (if b = 0 then Inl ZeroDivisionError else Inr (a / b))"

fun map_result :: "('a \<Rightarrow> py_error + 'b) \<Rightarrow> 'a list \<Rightarrow> py_error + 'b list" where
  \<comment> \<open>a comprehension or a loop whose body can raise: the first error ends it\<close>
  "map_result f [] = Inr []"
| "map_result f (x # xs) = bind (f x) (\<lambda>y. bind (map_result f xs) (\<lambda>ys. Inr (y # ys)))"

definition py_sum :: "real list \<Rightarrow> real" where
  \<comment> \<open>\<^verbatim>\<open>sum(xs)\<close>: starts at 0 and adds from the left\<close>
  "py_sum xs = foldl (+) 0 xs"

definition dict_get :: "('k \<times> 'v) list \<Rightarrow> 'k \<Rightarrow> 'v \<Rightarrow> 'v" where
  \<comment> \<open>\<^verbatim>\<open>d.get(k, default)\<close> on a dict literal\<close>
  "dict_get d k dflt = (case map_of d k of None \<Rightarrow> dflt | Some v \<Rightarrow> v)"

subsection \<open>Commission model\<close>

definition EXCHANGE_COMMISSION :: "(string \<times> real) list" where
  "EXCHANGE_COMMISSION =
     [(''betfair_ex_uk'', 5 / 100),
      (''betfair_ex_eu'', 5 / 100),
      (''betfair_ex_au'', 5 / 100),
      (''smarkets'', 2 / 100),
      (''matchbook'', 15 / 1000),
      (''betdaq'', 5 / 100)]"

definition adjust_odds_for_commission :: "real \<Rightarrow> string \<Rightarrow> real" where
  "adjust_odds_for_commission odds bookmaker_key =
     (let commission = dict_get EXCHANGE_COMMISSION bookmaker_key 0 in
      if commission = 0 then odds
      else 1 + (odds - 1) * (1 - commission))"

subsection \<open>Pairwise and N-way calculators\<close>

text \<open>
  \<^verbatim>\<open>calc_arb_equal_payout\<close> tests its odds against \<^verbatim>\<open>None\<close> first, so the two odds
  are \<^typ>\<open>real option\<close>; the bookmaker keys default to the empty string at the call.
\<close>

definition calc_arb_equal_payout ::
  "real option \<Rightarrow> real option \<Rightarrow> string \<Rightarrow> string \<Rightarrow> py_error + (real \<times> real \<times> real) option" where
  "calc_arb_equal_payout odds_a odds_b bookmaker_a bookmaker_b =
     (case (odds_a, odds_b) of
        (Some a, Some b) \<Rightarrow>
          if a \<le> 1 \<or> b \<le> 1 then Inr None
          else
            let effective_odds_a = adjust_odds_for_commission a bookmaker_a;
                effective_odds_b = adjust_odds_for_commission b bookmaker_b
            in bind (fdiv 1 effective_odds_a) (\<lambda>ia.
               bind (fdiv 1 effective_odds_b) (\<lambda>ib.
                 let inv = ia + ib in
                 if inv \<ge> 1 then Inr None
                 else
                   bind (fdiv 100 effective_odds_a) (\<lambda>ta.
                   bind (fdiv ta inv) (\<lambda>stake_a.
                   bind (fdiv 100 effective_odds_b) (\<lambda>tb.
                   bind (fdiv tb inv) (\<lambda>stake_b.
                     Inr (Some (stake_a, stake_b, stake_a + stake_b))))))))
      | _ \<Rightarrow> Inr None)"

definition effective_odds_of :: "real list \<Rightarrow> string list option \<Rightarrow> real list" where
  \<comment> \<open>the \<^verbatim>\<open>if bookmaker_keys and len(bookmaker_keys) == len(odds_list)\<close> block that
      \<^verbatim>\<open>calc_nway_arb\<close> and \<^verbatim>\<open>_nway_arb_profit_pct\<close> both open with\<close>
  "effective_odds_of odds_list bookmaker_keys =
     (case bookmaker_keys of
        Some ks \<Rightarrow>
          if ks \<noteq> [] \<and> length ks = length odds_list
          then map (\<lambda>(od, bk). adjust_odds_for_commission od bk) (zip odds_list ks)
          else odds_list
      | None \<Rightarrow> odds_list)"

definition calc_nway_arb ::
  "real list \<Rightarrow> string list option \<Rightarrow> py_error + (real list \<times> real) option" where
  "calc_nway_arb odds_list bookmaker_keys =
     (if odds_list = [] \<or> list_ex (\<lambda>od. od \<le> 1) odds_list then Inr None
      else
        let effective_odds = effective_odds_of odds_list bookmaker_keys in
        bind (map_result (\<lambda>od. fdiv 1 od) effective_odds) (\<lambda>invs.
          let inv_sum = py_sum invs in
          if inv_sum \<ge> 1 then Inr None
          else
            bind (map_result (\<lambda>od. fdiv 100 (od * inv_sum)) effective_odds) (\<lambda>stakes.
              Inr (Some (stakes, py_sum stakes)))))"

definition arb_profit_pct :: "real \<Rightarrow> real \<Rightarrow> string \<Rightarrow> string \<Rightarrow> py_error + real" where
  \<comment> \<open>\<^verbatim>\<open>_arb_profit_pct\<close>\<close>
  "arb_profit_pct odds_a odds_b bookmaker_a bookmaker_b =
     (let effective_odds_a = adjust_odds_for_commission odds_a bookmaker_a;
          effective_odds_b = adjust_odds_for_commission odds_b bookmaker_b
      in bind (fdiv 1 effective_odds_a) (\<lambda>ia.
         bind (fdiv 1 effective_odds_b) (\<lambda>ib.
           let inv = ia + ib in
           bind (fdiv 1 inv) (\<lambda>r. Inr (100 * (r - 1))))))"

definition nway_arb_profit_pct :: "real list \<Rightarrow> string list option \<Rightarrow> py_error + real" where
  \<comment> \<open>\<^verbatim>\<open>_nway_arb_profit_pct\<close>\<close>
  "nway_arb_profit_pct odds_list bookmaker_keys =
     (let effective_odds = effective_odds_of odds_list bookmaker_keys in
      bind (map_result (\<lambda>od. fdiv 1 od) effective_odds) (\<lambda>invs.
        let inv_sum = py_sum invs in
        bind (fdiv 1 inv_sum) (\<lambda>r. Inr (100 * (r - 1)))))"

section \<open>The odds feed and the opportunity records\<close>

text \<open>
  The feed is JSON: an event holds bookmaker blocks, a block holds markets, a market holds
  outcomes. Each field is either absent or holds a value of the type the feed's schema
  gives it (a string, a number, a list), so a field is an \<open>option\<close> and
  \<^verbatim>\<open>d.get(k, default)\<close> is \<open>get_or\<close>. Numbers are reals.
\<close>

record outcome =
  o_name :: "string option"
  o_price :: "real option"
  o_point :: "real option"
  o_description :: "string option"

record market =
  m_key :: "string option"
  m_outcomes :: "outcome list option"

record bookmaker =
  b_key :: "string option"
  b_title :: "string option"
  b_last_update :: "string option"
  b_markets :: "market list option"

record event =
  e_id :: "string option"
  e_home_team :: "string option"
  e_away_team :: "string option"
  e_commence_time :: "string option"
  e_bookmakers :: "bookmaker list option"

definition get_or :: "'a option \<Rightarrow> 'a \<Rightarrow> 'a" where
  "get_or field dflt = (case field of None \<Rightarrow> dflt | Some v \<Rightarrow> v)"

text \<open>
  An opportunity is the dict a scanner appends. Its legs are a list: the 2-way scanners
  write the fields \<^verbatim>\<open>side_a, book_a, odds_a, stake_a, last_update_a\<close> and the same
  with \<^verbatim>\<open>_b\<close>, the N-way scanners write \<^verbatim>\<open>outcome_i, book_i, odds_i, stake_i\<close>;
  \<open>op_indexed\<close> records which of the two namings the dict uses. \<open>leg_book_key\<close> is the
  bookmaker key the scanner built the leg from and passed to the calculator; only the
  dynamic scanner stores it in the dict (\<^verbatim>\<open>book_i_key\<close>). The \<^verbatim>\<open>arb_type\<close> strings
  \<^verbatim>\<open>"2-way"\<close>, \<^verbatim>\<open>"3-way"\<close>, \<^verbatim>\<open>f"{n}-way"\<close> are \<open>NWay n\<close>. A line is \<^verbatim>\<open>None\<close>, a
  float or a string.
\<close>

datatype arb_kind = NWay nat | TwoWayMiddle | TwoWayAsian

datatype line_val = NoLine | NumLine real | StrLine string

record leg =
  leg_outcome :: string
  leg_book :: string
  leg_book_key :: string
  leg_odds :: real
  leg_stake :: real
  leg_last_update :: "string option"

record opportunity =
  op_sport_key :: string
  op_event_id :: string
  op_home :: string
  op_away :: string
  op_commence :: string
  op_market :: string
  op_line :: line_val
  op_arb_type :: arb_kind
  op_indexed :: bool
  op_legs :: "leg list"
  op_total_stake :: real
  op_profit_pct :: real
  op_gap :: "real option"
  op_type :: "string option"

text \<open>
  The filter toggles are module globals that \<^verbatim>\<open>main\<close> sets once; here they are a record
  passed to every scanner. Python's number formatting is outside the repository and is
  a parameter: \<open>str_float\<close> is \<^verbatim>\<open>f"{x}"\<close>, \<open>signed1\<close> is \<^verbatim>\<open>f"{x:+.1f}"\<close> and \<open>signed2\<close>
  is \<^verbatim>\<open>f"{x:+.2f}"\<close>.
\<close>

record settings =
  INCLUDE_UNRELIABLE :: bool
  USE_ALL_BOOKS :: bool
  INCLUDE_EXCHANGES :: bool
  FINLAND_ONLY :: bool
  TWO_WAY_ONLY :: bool
  ENABLE_3WAY :: bool
  ENABLE_4WAY :: bool
  MAX_NWAY :: int
  EXCLUDE_BOOKS :: "string list"

record py_format =
  str_float :: "real \<Rightarrow> string"
  signed1 :: "real \<Rightarrow> string"
  signed2 :: "real \<Rightarrow> string"

subsection \<open>Strings, lists and dicts\<close>

definition py_lower :: "string \<Rightarrow> string" where
  \<comment> \<open>\<^verbatim>\<open>s.lower()\<close> on ASCII letters\<close>
  "py_lower s =
     map (\<lambda>c. let n = (of_char c :: nat) in if 65 \<le> n \<and> n \<le> 90 then char_of (n + 32) else c) s"

definition is_space :: "char \<Rightarrow> bool" where
  "is_space c = (let n = (of_char c :: nat) in (9 \<le> n \<and> n \<le> 13) \<or> (28 \<le> n \<and> n \<le> 32))"

definition py_strip :: "string \<Rightarrow> string" where
  \<comment> \<open>\<^verbatim>\<open>s.strip()\<close> on ASCII whitespace\<close>
  "py_strip s = rev (dropWhile is_space (rev (dropWhile is_space s)))"

definition remove_spaces :: "string \<Rightarrow> string" where
  \<comment> \<open>\<^verbatim>\<open>s.replace(" ", "")\<close>\<close>
  "remove_spaces s = filter (\<lambda>c. c \<noteq> CHR '' '') s"

definition str_opt :: "string option \<Rightarrow> string" where
  \<comment> \<open>how an f-string prints a value that may be \<^verbatim>\<open>None\<close>\<close>
  "str_opt v = (case v of None \<Rightarrow> ''None'' | Some s \<Rightarrow> s)"

definition py_index :: "'a list \<Rightarrow> nat \<Rightarrow> py_error + 'a" where
  \<comment> \<open>\<^verbatim>\<open>xs[i]\<close> for a literal index \<open>i \<ge> 0\<close>\<close>
  "py_index xs i = (if i < length xs then Inr (xs ! i) else Inl IndexError)"

fun py_max_by :: "('a \<Rightarrow> real) \<Rightarrow> 'a list \<Rightarrow> py_error + 'a" where
  \<comment> \<open>\<^verbatim>\<open>max(xs, key=f)\<close>: the first of the maximal elements; raises on an empty list\<close>
  "py_max_by f [] = Inl ValueError"
| "py_max_by f (x # xs) = Inr (foldl (\<lambda>best y. if f y > f best then y else best) x xs)"

fun dd_append :: "'k \<Rightarrow> 'v \<Rightarrow> ('k \<times> 'v list) list \<Rightarrow> ('k \<times> 'v list) list" where
  \<comment> \<open>\<^verbatim>\<open>d[k].append(v)\<close> on a \<^verbatim>\<open>defaultdict(list)\<close>; the dict keeps its keys in the
      order of their first insertion\<close>
  "dd_append k v [] = [(k, [v])]"
| "dd_append k v ((k', vs) # rest) =
     (if k = k' then (k', vs @ [v]) # rest else (k', vs) # dd_append k v rest)"

definition group_rows :: "('k \<times> 'v) list \<Rightarrow> ('k \<times> 'v list) list" where
  \<comment> \<open>the dict a loop builds by appending the rows \<open>(k, v)\<close> in order\<close>
  "group_rows rows = foldl (\<lambda>d (k, v). dd_append k v d) [] rows"

definition first_seen :: "'a list \<Rightarrow> 'a list" where
  \<comment> \<open>the elements in order, each at its first occurrence (a loop with a \<^verbatim>\<open>seen\<close> set)\<close>
  "first_seen xs = foldl (\<lambda>seen x. if x \<in> set seen then seen else seen @ [x]) [] xs"

fun for_emit :: "('a \<Rightarrow> py_error + 'b list) \<Rightarrow> 'a list \<Rightarrow> py_error + 'b list" where
  \<comment> \<open>a \<^verbatim>\<open>for\<close> loop whose body appends the records \<open>body x\<close> to the result list\<close>
  "for_emit body [] = Inr []"
| "for_emit body (x # xs) =
     bind (body x) (\<lambda>ys. bind (for_emit body xs) (\<lambda>zs. Inr (ys @ zs)))"

fun for_emit_break :: "('a \<Rightarrow> py_error + 'b list) \<Rightarrow> 'a list \<Rightarrow> py_error + 'b list" where
  \<comment> \<open>the same loop when the body ends with \<^verbatim>\<open>break\<close> after it has appended\<close>
  "for_emit_break body [] = Inr []"
| "for_emit_break body (x # xs) =
     bind (body x) (\<lambda>ys. if ys = [] then for_emit_break body xs else Inr ys)"

subsection \<open>Bookmaker filter\<close>

definition TRUSTED_BOOKMAKERS :: "string set" where
  "TRUSTED_BOOKMAKERS =
     {''bet365'', ''betway'', ''unibet'', ''bwin'', ''betsson'', ''pinnacle'', ''marathonbet'',
      ''betclic'', ''betfair'', ''williamhill'', ''betano'', ''sportingbet'', ''888sport'',
      ''sport888'', ''nordicbet'', ''coolbet'', ''betvictor'', ''betfair_sb_uk'',
      ''betfair_ex_eu'', ''betfair_ex_uk''}"

definition BETFAIR_EXCHANGES :: "string set" where
  "BETFAIR_EXCHANGES = {''betfair_ex_uk'', ''betfair_ex_eu'', ''betfair_ex_au''}"

definition NON_BETFAIR_EXCHANGES :: "string set" where
  "NON_BETFAIR_EXCHANGES =
     {''betopenly'', ''kalshi'', ''novig'', ''polymarket'', ''prophetx'', ''smarkets'', ''matchbook''}"

definition UNRELIABLE_BOOKMAKERS :: "string set" where
  "UNRELIABLE_BOOKMAKERS = {''williamhill'', ''unibet_uk''}"

definition BLACKLIST_BOOKMAKERS :: "string set" where
  "BLACKLIST_BOOKMAKERS = {''paddypower'', ''paddy_power''}"

definition FINLAND_RESTRICTED :: "string set" where
  "FINLAND_RESTRICTED =
     {''betmgm'', ''draftkings'', ''fanduel'', ''betrivers'', ''fanatics'', ''williamhill_us'',
      ''ballybet'', ''betparx'', ''espnbet'', ''hardrockbet'', ''fliff'', ''rebet'',
      ''pointsbetus'', ''barstool'', ''betfair_ex_au'', ''betr_au'', ''betright'',
      ''boombet'', ''ladbrokes_au'', ''neds'', ''playup'', ''pointsbetau'', ''sportsbet'',
      ''tab'', ''tabtouch'', ''gtbets'', ''bovada'', ''virginbet'', ''livescorebet'',
      ''coral'', ''ladbrokes_uk'', ''codere_it''}"

definition keep_bookmaker :: "settings \<Rightarrow> string \<Rightarrow> bool" where
  \<comment> \<open>the body of the loop of \<^verbatim>\<open>_filter_bookmakers\<close>: False where it continues\<close>
  "keep_bookmaker cfg k =
     (if k \<noteq> [] \<and> py_lower k \<in> set (EXCLUDE_BOOKS cfg) then False
      else if k \<in> BLACKLIST_BOOKMAKERS then False
      else if k \<in> NON_BETFAIR_EXCHANGES then False
      else if \<not> INCLUDE_EXCHANGES cfg \<and> k \<in> BETFAIR_EXCHANGES then False
      else if FINLAND_ONLY cfg \<and> k \<in> FINLAND_RESTRICTED then False
      else if \<not> USE_ALL_BOOKS cfg \<and> k \<notin> TRUSTED_BOOKMAKERS then False
      else if \<not> INCLUDE_UNRELIABLE cfg \<and> k \<in> UNRELIABLE_BOOKMAKERS then False
      else True)"

definition filter_bookmakers :: "settings \<Rightarrow> bookmaker list \<Rightarrow> bookmaker list" where
  \<comment> \<open>\<^verbatim>\<open>_filter_bookmakers\<close>\<close>
  "filter_bookmakers cfg bookmakers =
     filter (\<lambda>bm. keep_bookmaker cfg (get_or (b_key bm) [])) bookmakers"

section \<open>The scanners\<close>

text \<open>
  Every scanner walks the events; for one event it walks the filtered bookmakers, their
  markets and the outcomes of the markets it wants, collects quotes, and tries the
  calculator on combinations of quotes. The only state of the collecting loops is the
  dict or the lists they append to, so the model first lists what the loops visit
  (\<open>market_outcomes\<close>, in the order of the loops), then keeps the rows the body appends,
  then groups them. A quote is the tuple \<^verbatim>\<open>(key, title, price, last_update)\<close> the
  source appends.
\<close>

type_synonym quote = "string \<times> string \<times> real \<times> string option"

definition event_bookmakers :: "settings \<Rightarrow> event \<Rightarrow> bookmaker list" where
  \<comment> \<open>\<^verbatim>\<open>_filter_bookmakers(ev.get("bookmakers", []))\<close>\<close>
  "event_bookmakers cfg ev = filter_bookmakers cfg (get_or (e_bookmakers ev) [])"

definition market_outcomes ::
  "bookmaker list \<Rightarrow> (market \<Rightarrow> bool) \<Rightarrow> (bookmaker \<times> market \<times> outcome) list" where
  \<comment> \<open>\<^verbatim>\<open>for bm in bookmakers: for mkt in bm.get("markets", []):\<close> skip the markets not
      wanted; \<^verbatim>\<open>for o in mkt.get("outcomes", [])\<close>\<close>
  "market_outcomes bookmakers wanted =
     concat (map (\<lambda>bm.
       concat (map (\<lambda>mkt.
         if wanted mkt then map (\<lambda>oc. (bm, mkt, oc)) (get_or (m_outcomes mkt) []) else [])
         (get_or (b_markets bm) [])))
       bookmakers)"

definition bm_title :: "bookmaker \<Rightarrow> string" where
  \<comment> \<open>\<^verbatim>\<open>bm.get("title", bm.get("key", "?"))\<close>\<close>
  "bm_title bm = get_or (b_title bm) (get_or (b_key bm) ''?'')"

definition bm_quote :: "bookmaker \<Rightarrow> real \<Rightarrow> quote" where
  "bm_quote bm price = (get_or (b_key bm) ''?'', bm_title bm, price, b_last_update bm)"

definition q_key :: "quote \<Rightarrow> string" where
  "q_key q = fst q"

definition q_odds :: "quote \<Rightarrow> real" where
  "q_odds q = fst (snd (snd q))"

definition make_leg :: "string \<Rightarrow> quote \<Rightarrow> real \<Rightarrow> leg" where
  "make_leg label q stk =
     (case q of (bk, b, od, lu) \<Rightarrow>
        \<lparr>leg_outcome = label, leg_book = b, leg_book_key = bk, leg_odds = od,
         leg_stake = stk, leg_last_update = lu\<rparr>)"

definition make_record ::
  "string \<Rightarrow> event \<Rightarrow> string \<Rightarrow> line_val \<Rightarrow> arb_kind \<Rightarrow> bool \<Rightarrow> leg list \<Rightarrow> real \<Rightarrow> real
     \<Rightarrow> opportunity" where
  \<comment> \<open>the dict literal every scanner appends\<close>
  "make_record sport_key ev mkt_label line kind indexed lgs tot profit =
     \<lparr>op_sport_key = sport_key,
      op_event_id = get_or (e_id ev) [],
      op_home = get_or (e_home_team ev) ''Home'',
      op_away = get_or (e_away_team ev) ''Away'',
      op_commence = get_or (e_commence_time ev) [],
      op_market = mkt_label,
      op_line = line,
      op_arb_type = kind,
      op_indexed = indexed,
      op_legs = lgs,
      op_total_stake = tot,
      op_profit_pct = profit,
      op_gap = None,
      op_type = None\<rparr>"

definition two_way_record ::
  "string \<Rightarrow> event \<Rightarrow> string \<Rightarrow> line_val \<Rightarrow> arb_kind \<Rightarrow> string \<Rightarrow> string \<Rightarrow> quote \<Rightarrow> quote
     \<Rightarrow> real \<times> real \<times> real \<Rightarrow> real \<Rightarrow> opportunity" where
  "two_way_record sport_key ev mkt_label line kind side_a side_b q1 q2 res profit =
     (case res of (stake_a, stake_b, tot) \<Rightarrow>
        make_record sport_key ev mkt_label line kind False
          [make_leg side_a q1 stake_a, make_leg side_b q2 stake_b] tot profit)"

definition two_way_attempt ::
  "(real \<times> real \<times> real \<Rightarrow> real \<Rightarrow> opportunity) \<Rightarrow> quote \<Rightarrow> quote \<Rightarrow> py_error + opportunity list" where
  \<comment> \<open>\<^verbatim>\<open>res = calc_arb_equal_payout(o1, o2, bk1, bk2); if res: arbs.append({...})\<close>,
      the dict holding \<^verbatim>\<open>res[0], res[1], res[2]\<close> and \<^verbatim>\<open>_arb_profit_pct(o1, o2, bk1, bk2)\<close>\<close>
  "two_way_attempt build q1 q2 =
     (case (q1, q2) of ((bk1, b1, o1, lu1), (bk2, b2, o2, lu2)) \<Rightarrow>
        bind (calc_arb_equal_payout (Some o1) (Some o2) bk1 bk2) (\<lambda>res.
          case res of
            None \<Rightarrow> Inr []
          | Some r \<Rightarrow> bind (arb_profit_pct o1 o2 bk1 bk2) (\<lambda>profit. Inr [build r profit])))"

definition pair_loop ::
  "bool \<Rightarrow> ('a \<Rightarrow> 'b \<Rightarrow> bool) \<Rightarrow> ('a \<Rightarrow> 'b \<Rightarrow> py_error + opportunity list) \<Rightarrow> 'a list \<Rightarrow> 'b list
     \<Rightarrow> py_error + opportunity list" where
  \<comment> \<open>\<^verbatim>\<open>for x in xs: for y in ys: if skip: continue; attempt\<close>, with a \<^verbatim>\<open>break\<close> out of
      the inner loop after an append when \<open>brk\<close>\<close>
  "pair_loop brk skip attempt xs ys =
     for_emit (\<lambda>x.
       (if brk then for_emit_break else for_emit)
         (\<lambda>y. if skip x y then Inr [] else attempt x y) ys) xs"

definition sides_of :: "string \<Rightarrow> (string \<times> 'a) list \<Rightarrow> 'a list" where
  \<comment> \<open>the list under \<^verbatim>\<open>"Over"\<close> or \<^verbatim>\<open>"Under"\<close> of a
      \<^verbatim>\<open>defaultdict(lambda: {"Over": [], "Under": []})\<close> entry\<close>
  "sides_of side vs = map snd (filter (\<lambda>(n, q). n = side) vs)"

subsection \<open>Totals, team totals and cross-line middles\<close>

definition totals_row :: "bookmaker \<Rightarrow> outcome \<Rightarrow> (real \<times> string \<times> quote) option" where
  "totals_row bm oc =
     (let name = get_or (o_name oc) [] in
      case (o_point oc, o_price oc) of
        (Some point, Some price) \<Rightarrow>
          if name \<noteq> ''Over'' \<and> name \<noteq> ''Under'' then None
          else Some (point, name, bm_quote bm price)
      | _ \<Rightarrow> None)"

definition totals_event ::
  "settings \<Rightarrow> string \<Rightarrow> string \<Rightarrow> event \<Rightarrow> py_error + opportunity list" where
  "totals_event cfg sport_key market_key ev =
     (let bookmakers = event_bookmakers cfg ev;
          by_line = group_rows (List.map_filter (\<lambda>(bm, mkt, oc). totals_row bm oc)
                      (market_outcomes bookmakers (\<lambda>mkt. m_key mkt = Some market_key)))
      in for_emit (\<lambda>(line, sides).
           let overs = sides_of ''Over'' sides; unders = sides_of ''Under'' sides in
           if overs = [] \<or> unders = [] then Inr []
           else pair_loop False (\<lambda>q1 q2. q_key q1 = q_key q2)
                  (\<lambda>q1 q2. two_way_attempt
                     (two_way_record sport_key ev market_key (NumLine line) (NWay 2)
                        ''Over'' ''Under'' q1 q2) q1 q2)
                  overs unders)
         by_line)"

definition scan_totals :: "settings \<Rightarrow> event list \<Rightarrow> string \<Rightarrow> string \<Rightarrow> py_error + opportunity list" where
  "scan_totals cfg events sport_key market_key =
     for_emit (totals_event cfg sport_key market_key) events"

definition scan_alternate_totals_enhanced ::
  "settings \<Rightarrow> event list \<Rightarrow> string \<Rightarrow> py_error + opportunity list" where
  \<comment> \<open>the body of \<^verbatim>\<open>scan_totals\<close> with the market key \<^verbatim>\<open>"alternate_totals"\<close> written in\<close>
  "scan_alternate_totals_enhanced cfg events sport_key =
     for_emit (totals_event cfg sport_key ''alternate_totals'') events"

definition team_totals_row ::
  "bookmaker \<Rightarrow> outcome \<Rightarrow> ((string \<times> real) \<times> string \<times> quote) option" where
  "team_totals_row bm oc =
     (let name = get_or (o_name oc) [];
          desc = py_strip (get_or (o_description oc) [])
      in case (o_point oc, o_price oc) of
        (Some point, Some price) \<Rightarrow>
          if name \<noteq> ''Over'' \<and> name \<noteq> ''Under'' then None
          else let team = (if desc \<noteq> [] then desc else ''Team'')
               in Some ((team, point), name, bm_quote bm price)
      | _ \<Rightarrow> None)"

definition team_totals_event ::
  "settings \<Rightarrow> string \<Rightarrow> string \<Rightarrow> event \<Rightarrow> py_error + opportunity list" where
  "team_totals_event cfg sport_key market_key ev =
     (let bookmakers = event_bookmakers cfg ev;
          by_team_line = group_rows (List.map_filter (\<lambda>(bm, mkt, oc). team_totals_row bm oc)
                      (market_outcomes bookmakers (\<lambda>mkt. m_key mkt = Some market_key)))
      in for_emit (\<lambda>((team, line), sides).
           let overs = sides_of ''Over'' sides; unders = sides_of ''Under'' sides in
           if overs = [] \<or> unders = [] then Inr []
           else pair_loop False (\<lambda>q1 q2. q_key q1 = q_key q2)
                  (\<lambda>q1 q2. two_way_attempt
                     (two_way_record sport_key ev (market_key @ ''('' @ team @ '')'')
                        (NumLine line) (NWay 2) ''Over'' ''Under'' q1 q2) q1 q2)
                  overs unders)
         by_team_line)"

definition scan_team_totals ::
  "settings \<Rightarrow> event list \<Rightarrow> string \<Rightarrow> string \<Rightarrow> py_error + opportunity list" where
  "scan_team_totals cfg events sport_key market_key =
     for_emit (team_totals_event cfg sport_key market_key) events"

definition cross_line_row :: "string \<Rightarrow> bookmaker \<Rightarrow> outcome \<Rightarrow> (real \<times> quote) option" where
  \<comment> \<open>what the collecting loop appends to \<^verbatim>\<open>all_overs\<close> (\<open>side\<close> is \<^verbatim>\<open>"Over"\<close>) or to
      \<^verbatim>\<open>all_unders\<close> (\<^verbatim>\<open>"Under"\<close>): the line and the quote\<close>
  "cross_line_row side bm oc =
     (let name = get_or (o_name oc) [] in
      case (o_point oc, o_price oc) of
        (Some point, Some price) \<Rightarrow>
          if name = side then Some (point, bm_quote bm price) else None
      | _ \<Rightarrow> None)"

definition cross_line_wanted :: "market \<Rightarrow> bool" where
  "cross_line_wanted mkt = (m_key mkt = Some ''totals'' \<or> m_key mkt = Some ''alternate_totals'')"

definition cross_line_record ::
  "py_format \<Rightarrow> string \<Rightarrow> event \<Rightarrow> real \<times> quote \<Rightarrow> real \<times> quote \<Rightarrow> real \<times> real \<times> real \<Rightarrow> real
     \<Rightarrow> opportunity" where
  "cross_line_record fmt sport_key ev ov un res profit =
     (case (ov, un) of ((line_over, q_over), (line_under, q_under)) \<Rightarrow>
        let gap = line_under - line_over in
        (two_way_record sport_key ev ''cross_line_totals''
           (StrLine (str_float fmt line_over @ ''/'' @ str_float fmt line_under)) TwoWayMiddle
           (''Over '' @ str_float fmt line_over) (''Under '' @ str_float fmt line_under)
           q_over q_under res profit)
          \<lparr>op_gap := Some gap, op_type := Some (if gap > 1 then ''middle'' else ''scalp'')\<rparr>)"

definition cross_line_event ::
  "py_format \<Rightarrow> settings \<Rightarrow> string \<Rightarrow> event \<Rightarrow> py_error + opportunity list" where
  "cross_line_event fmt cfg sport_key ev =
     (let bookmakers = event_bookmakers cfg ev;
          visited = market_outcomes bookmakers cross_line_wanted;
          all_overs = List.map_filter (\<lambda>(bm, mkt, oc). cross_line_row ''Over'' bm oc) visited;
          all_unders = List.map_filter (\<lambda>(bm, mkt, oc). cross_line_row ''Under'' bm oc) visited
      in pair_loop False
           (\<lambda>ov un. q_key (snd ov) = q_key (snd un) \<or> fst un \<le> fst ov)
           (\<lambda>ov un. two_way_attempt (cross_line_record fmt sport_key ev ov un) (snd ov) (snd un))
           all_overs all_unders)"

definition scan_cross_line_opportunities ::
  "py_format \<Rightarrow> settings \<Rightarrow> event list \<Rightarrow> string \<Rightarrow> py_error + opportunity list" where
  "scan_cross_line_opportunities fmt cfg events sport_key =
     for_emit (cross_line_event fmt cfg sport_key) events"

subsection \<open>Spreads and Asian handicap\<close>

text \<open>
  The spread scanners append the tuple \<^verbatim>\<open>(name, pt, key, title, price, last_update)\<close>;
  here it is the name, the signed line and the quote.
\<close>

type_synonym spread_quote = "string \<times> real \<times> quote"

definition spread_row :: "bookmaker \<Rightarrow> outcome \<Rightarrow> spread_quote option" where
  \<comment> \<open>\<^verbatim>\<open>name = o.get("name", "")\<close> is never \<^verbatim>\<open>None\<close> in this model, so only the point
      and the price decide\<close>
  "spread_row bm oc =
     (let name = get_or (o_name oc) [] in
      case (o_point oc, o_price oc) of
        (Some point, Some price) \<Rightarrow> Some (name, point, bm_quote bm price)
      | _ \<Rightarrow> None)"

definition spread_label :: "(real \<Rightarrow> string) \<Rightarrow> spread_quote \<Rightarrow> string" where
  \<comment> \<open>\<^verbatim>\<open>f"{n} ({p:+.1f})"\<close>, or with \<^verbatim>\<open>+.2f\<close>\<close>
  "spread_label signed sq = (case sq of (n, p, q) \<Rightarrow> n @ '' ('' @ signed p @ '')'')"

definition spread_pairs ::
  "bool \<Rightarrow> (spread_quote \<Rightarrow> spread_quote \<Rightarrow> real \<times> real \<times> real \<Rightarrow> real \<Rightarrow> opportunity)
     \<Rightarrow> spread_quote list \<Rightarrow> py_error + opportunity list" where
  \<comment> \<open>one line's outcomes: the negative lines against the positive ones\<close>
  "spread_pairs brk build outcomes =
     (let neg = filter (\<lambda>(n, p, q). p < 0) outcomes;
          pos = filter (\<lambda>(n, p, q). p > 0) outcomes
      in if neg = [] \<or> pos = [] then Inr []
         else pair_loop brk
                (\<lambda>(n1, p1, q1) (n2, p2, q2). q_key q1 = q_key q2 \<or> n1 = n2)
                (\<lambda>s1 s2. two_way_attempt (build s1 s2) (snd (snd s1)) (snd (snd s2)))
                neg pos)"

definition spreads_event ::
  "py_format \<Rightarrow> settings \<Rightarrow> string \<Rightarrow> string list \<Rightarrow> event \<Rightarrow> py_error + opportunity list" where
  "spreads_event fmt cfg sport_key market_keys ev =
     (let bookmakers = event_bookmakers cfg ev;
          by_line = group_rows (List.map_filter
                      (\<lambda>(bm, mkt, oc). case spread_row bm oc of
                           None \<Rightarrow> None
                         | Some (n, pt, q) \<Rightarrow> Some ((get_or (m_key mkt) [], abs pt), (n, pt, q)))
                      (market_outcomes bookmakers
                         (\<lambda>mkt. case m_key mkt of None \<Rightarrow> False | Some mk \<Rightarrow> mk \<in> set market_keys)))
      in for_emit (\<lambda>((mk, line), outcomes).
           spread_pairs True
             (\<lambda>s1 s2. two_way_record sport_key ev mk (NumLine line) (NWay 2)
                (spread_label (signed1 fmt) s1) (spread_label (signed1 fmt) s2)
                (snd (snd s1)) (snd (snd s2)))
             outcomes)
         by_line)"

definition scan_spreads ::
  "py_format \<Rightarrow> settings \<Rightarrow> event list \<Rightarrow> string \<Rightarrow> string list \<Rightarrow> py_error + opportunity list" where
  "scan_spreads fmt cfg events sport_key market_keys =
     for_emit (spreads_event fmt cfg sport_key market_keys) events"

definition alternate_spreads_event ::
  "py_format \<Rightarrow> settings \<Rightarrow> string \<Rightarrow> event \<Rightarrow> py_error + opportunity list" where
  "alternate_spreads_event fmt cfg sport_key ev =
     (let bookmakers = event_bookmakers cfg ev;
          by_line = group_rows (List.map_filter
                      (\<lambda>(bm, mkt, oc). case spread_row bm oc of
                           None \<Rightarrow> None
                         | Some (n, pt, q) \<Rightarrow> Some (abs pt, (n, pt, q)))
                      (market_outcomes bookmakers (\<lambda>mkt. m_key mkt = Some ''alternate_spreads'')))
      in for_emit (\<lambda>(line, outcomes).
           spread_pairs True
             (\<lambda>s1 s2. two_way_record sport_key ev ''alternate_spreads'' (NumLine line) (NWay 2)
                (spread_label (signed1 fmt) s1) (spread_label (signed1 fmt) s2)
                (snd (snd s1)) (snd (snd s2)))
             outcomes)
         by_line)"

definition scan_alternate_spreads_enhanced ::
  "py_format \<Rightarrow> settings \<Rightarrow> event list \<Rightarrow> string \<Rightarrow> py_error + opportunity list" where
  "scan_alternate_spreads_enhanced fmt cfg events sport_key =
     for_emit (alternate_spreads_event fmt cfg sport_key) events"

definition py_mod :: "real \<Rightarrow> real \<Rightarrow> real" where
  \<comment> \<open>\<^verbatim>\<open>x % y\<close> on floats, for a positive \<open>y\<close>\<close>
  "py_mod x y = x - y * of_int \<lfloor>x / y\<rfloor>"

definition quarter_line :: "real \<Rightarrow> bool" where
  "quarter_line line =
     (abs (py_mod line (1 / 2) - 25 / 100) < 1 / 100 \<or> abs (py_mod line (1 / 2) - 75 / 100) < 1 / 100)"

definition asian_handicap_event ::
  "py_format \<Rightarrow> settings \<Rightarrow> string \<Rightarrow> event \<Rightarrow> py_error + opportunity list" where
  "asian_handicap_event fmt cfg sport_key ev =
     (let bookmakers = event_bookmakers cfg ev;
          handicap_lines = group_rows (List.map_filter
                      (\<lambda>(bm, mkt, oc). case spread_row bm oc of
                           None \<Rightarrow> None
                         | Some (n, line, q) \<Rightarrow>
                             if quarter_line line then Some (abs line, (n, line, q)) else None)
                      (market_outcomes bookmakers
                         (\<lambda>mkt. m_key mkt = Some ''spreads'' \<or> m_key mkt = Some ''alternate_spreads'')))
      in for_emit (\<lambda>(line, outcomes).
           spread_pairs False
             (\<lambda>s1 s2. two_way_record sport_key ev ''asian_handicap'' (NumLine line) TwoWayAsian
                (spread_label (signed2 fmt) s1) (spread_label (signed2 fmt) s2)
                (snd (snd s1)) (snd (snd s2)))
             outcomes)
         handicap_lines)"

definition scan_asian_handicap ::
  "py_format \<Rightarrow> settings \<Rightarrow> event list \<Rightarrow> string \<Rightarrow> py_error + opportunity list" where
  "scan_asian_handicap fmt cfg events sport_key =
     for_emit (asian_handicap_event fmt cfg sport_key) events"

subsection \<open>Double chance, both teams to score, draw no bet\<close>

definition named_row :: "(string \<Rightarrow> string) \<Rightarrow> bookmaker \<Rightarrow> outcome \<Rightarrow> (string \<times> quote) option" where
  \<comment> \<open>a quote under its outcome name, the name normalised by \<open>normalise\<close>; dropped when the
      name is empty or the price is missing\<close>
  "named_row normalise bm oc =
     (let name = normalise (get_or (o_name oc) []) in
      case o_price oc of
        None \<Rightarrow> None
      | Some price \<Rightarrow> if name = [] then None else Some (name, bm_quote bm price))"

definition double_chance_event :: "settings \<Rightarrow> string \<Rightarrow> event \<Rightarrow> py_error + opportunity list" where
  "double_chance_event cfg sport_key ev =
     (let bookmakers = event_bookmakers cfg ev;
          by_outcome = group_rows (List.map_filter
                      (\<lambda>(bm, mkt, oc). named_row (\<lambda>s. py_lower (remove_spaces s)) bm oc)
                      (market_outcomes bookmakers (\<lambda>mkt. m_key mkt = Some ''double_chance'')));
          pairs = [(''homeordraw'', ''away''), (''awayordraw'', ''home''), (''homeoraway'', ''draw'')]
      in for_emit (\<lambda>(n1, n2).
           case (map_of by_outcome n1, map_of by_outcome n2) of
             (Some qs1, Some qs2) \<Rightarrow>
               pair_loop False (\<lambda>q1 q2. q_key q1 = q_key q2)
                 (\<lambda>q1 q2. two_way_attempt
                    (two_way_record sport_key ev ''double_chance'' (StrLine (n1 @ '' vs '' @ n2))
                       (NWay 2) n1 n2 q1 q2) q1 q2)
                 qs1 qs2
           | _ \<Rightarrow> Inr [])
         pairs)"

definition scan_double_chance :: "settings \<Rightarrow> event list \<Rightarrow> string \<Rightarrow> py_error + opportunity list" where
  "scan_double_chance cfg events sport_key = for_emit (double_chance_event cfg sport_key) events"

definition priced_row :: "(string \<Rightarrow> bool) \<Rightarrow> bookmaker \<Rightarrow> outcome \<Rightarrow> quote option" where
  \<comment> \<open>a quote whose outcome name passes \<open>wanted\<close>; dropped when the price is missing\<close>
  "priced_row wanted bm oc =
     (let name = get_or (o_name oc) [] in
      case o_price oc of
        None \<Rightarrow> None
      | Some price \<Rightarrow> if wanted name then Some (bm_quote bm price) else None)"

definition btts_event :: "settings \<Rightarrow> string \<Rightarrow> event \<Rightarrow> py_error + opportunity list" where
  "btts_event cfg sport_key ev =
     (let bookmakers = event_bookmakers cfg ev;
          visited = market_outcomes bookmakers (\<lambda>mkt. m_key mkt = Some ''btts'');
          yes_odds = List.map_filter
            (\<lambda>(bm, mkt, oc). priced_row (\<lambda>name. name \<noteq> [] \<and> py_lower name = ''yes'') bm oc) visited;
          no_odds = List.map_filter
            (\<lambda>(bm, mkt, oc). priced_row (\<lambda>name. \<not> (name \<noteq> [] \<and> py_lower name = ''yes'') \<and>
                                            name \<noteq> [] \<and> py_lower name = ''no'') bm oc) visited
      in pair_loop False (\<lambda>q1 q2. q_key q1 = q_key q2)
           (\<lambda>q1 q2. two_way_attempt
              (two_way_record sport_key ev ''btts'' NoLine (NWay 2) ''Yes'' ''No'' q1 q2) q1 q2)
           yes_odds no_odds)"

definition scan_btts :: "settings \<Rightarrow> event list \<Rightarrow> string \<Rightarrow> py_error + opportunity list" where
  "scan_btts cfg events sport_key = for_emit (btts_event cfg sport_key) events"

definition draw_no_bet_event :: "settings \<Rightarrow> string \<Rightarrow> event \<Rightarrow> py_error + opportunity list" where
  "draw_no_bet_event cfg sport_key ev =
     (let home = get_or (e_home_team ev) ''Home'';
          away = get_or (e_away_team ev) ''Away'';
          bookmakers = event_bookmakers cfg ev;
          visited = market_outcomes bookmakers (\<lambda>mkt. m_key mkt = Some ''draw_no_bet'');
          is_home = (\<lambda>name. py_lower name = ''home'' \<or> (home \<noteq> [] \<and> py_lower name = py_lower home));
          is_away = (\<lambda>name. py_lower name = ''away'' \<or> (away \<noteq> [] \<and> py_lower name = py_lower away));
          home_odds = List.map_filter (\<lambda>(bm, mkt, oc). priced_row is_home bm oc) visited;
          away_odds = List.map_filter
            (\<lambda>(bm, mkt, oc). priced_row (\<lambda>name. \<not> is_home name \<and> is_away name) bm oc) visited
      in pair_loop False (\<lambda>q1 q2. q_key q1 = q_key q2)
           (\<lambda>q1 q2. two_way_attempt
              (two_way_record sport_key ev ''draw_no_bet'' NoLine (NWay 2) ''Home'' ''Away'' q1 q2)
              q1 q2)
           home_odds away_odds)"

definition scan_draw_no_bet :: "settings \<Rightarrow> event list \<Rightarrow> string \<Rightarrow> py_error + opportunity list" where
  "scan_draw_no_bet cfg events sport_key = for_emit (draw_no_bet_event cfg sport_key) events"

subsection \<open>Head-to-head, 2-way and 3-way\<close>

definition is_two_way_market :: "outcome list \<Rightarrow> bool" where
  "is_two_way_market outcomes =
     (if length outcomes \<noteq> 2 then False
      else if ''draw'' \<in> set (map (\<lambda>oc. py_lower (py_strip (get_or (o_name oc) []))) outcomes)
      then False
      else True)"

definition h2h_market ::
  "settings \<Rightarrow> string \<Rightarrow> event \<Rightarrow> string \<Rightarrow> py_error + opportunity list" where
  \<comment> \<open>the body of \<^verbatim>\<open>for mkt_key in market_keys\<close>\<close>
  "h2h_market cfg sport_key ev mkt_key =
     (let bookmakers = event_bookmakers cfg ev;
          outcomes_by_side = group_rows (List.map_filter
                      (\<lambda>(bm, mkt, oc). named_row (\<lambda>s. s) bm oc)
                      (market_outcomes bookmakers
                         (\<lambda>mkt. m_key mkt = Some mkt_key \<and>
                            (let outs = get_or (m_outcomes mkt) [] in
                             if TWO_WAY_ONLY cfg then is_two_way_market outs
                             else length outs = 2))))
      in case outcomes_by_side of
           [(a_side, qs_a), (b_side, qs_b)] \<Rightarrow>
             pair_loop True (\<lambda>q1 q2. q_key q1 = q_key q2)
               (\<lambda>q1 q2. two_way_attempt
                  (two_way_record sport_key ev mkt_key NoLine (NWay 2) a_side b_side q1 q2) q1 q2)
               qs_a qs_b
         | _ \<Rightarrow> Inr [])"

definition scan_h2h ::
  "settings \<Rightarrow> event list \<Rightarrow> string \<Rightarrow> string list \<Rightarrow> py_error + opportunity list" where
  "scan_h2h cfg events sport_key market_keys =
     for_emit (\<lambda>ev. for_emit (h2h_market cfg sport_key ev) market_keys) events"

definition nway_attempt ::
  "real list \<Rightarrow> string list \<Rightarrow> (real list \<Rightarrow> py_error + leg list)
     \<Rightarrow> (leg list \<Rightarrow> real \<Rightarrow> real \<Rightarrow> opportunity) \<Rightarrow> py_error + opportunity list" where
  \<comment> \<open>\<^verbatim>\<open>result = calc_nway_arb(odds, keys); if result: stakes, total_stake = result;
      arbs.append({...})\<close>, the dict holding the legs with their stakes, the total and
      \<^verbatim>\<open>_nway_arb_profit_pct(odds, keys)\<close>\<close>
  "nway_attempt odds_list keys mk_legs build =
     bind (calc_nway_arb odds_list (Some keys)) (\<lambda>result.
       case result of
         None \<Rightarrow> Inr []
       | Some (stakes, total_stake) \<Rightarrow>
           bind (mk_legs stakes) (\<lambda>lgs.
           bind (nway_arb_profit_pct odds_list (Some keys)) (\<lambda>profit.
             Inr [build lgs total_stake profit])))"

definition indexed_legs :: "(real \<Rightarrow> leg) list \<Rightarrow> real list \<Rightarrow> py_error + leg list" where
  \<comment> \<open>the legs of a dict literal that reads \<^verbatim>\<open>stakes[0], stakes[1], ...\<close>\<close>
  "indexed_legs mk stakes =
     map_result (\<lambda>(i, f). bind (py_index stakes i) (\<lambda>stk. Inr (f stk))) (enumerate 0 mk)"

definition h2h_3way_event ::
  "settings \<Rightarrow> string \<Rightarrow> string \<Rightarrow> event \<Rightarrow> py_error + opportunity list" where
  "h2h_3way_event cfg sport_key market_key ev =
     (let bookmakers = event_bookmakers cfg ev;
          outcomes_data = group_rows (List.map_filter
                      (\<lambda>(bm, mkt, oc). named_row py_strip bm oc)
                      (market_outcomes bookmakers
                         (\<lambda>mkt. m_key mkt = Some market_key \<and>
                            (let outs = get_or (m_outcomes mkt) [] in
                             length outs = 3 \<and>
                             list_ex (\<lambda>oc. py_lower (py_strip (get_or (o_name oc) [])) = ''draw'') outs))))
      in case outcomes_data of
           [(name0, qs0), (name1, qs1), (name2, qs2)] \<Rightarrow>
             for_emit (\<lambda>q1. for_emit (\<lambda>q2. for_emit (\<lambda>q3.
               if q_key q1 = q_key q2 \<or> q_key q1 = q_key q3 \<or> q_key q2 = q_key q3 then Inr []
               else nway_attempt [q_odds q1, q_odds q2, q_odds q3] [q_key q1, q_key q2, q_key q3]
                      (indexed_legs [make_leg name0 q1, make_leg name1 q2, make_leg name2 q3])
                      (make_record sport_key ev (market_key @ ''_3way'') NoLine (NWay 3) True))
               qs2) qs1) qs0
         | _ \<Rightarrow> Inr [])"

definition scan_h2h_3way ::
  "settings \<Rightarrow> event list \<Rightarrow> string \<Rightarrow> string \<Rightarrow> py_error + opportunity list" where
  "scan_h2h_3way cfg events sport_key market_key =
     for_emit (h2h_3way_event cfg sport_key market_key) events"

subsection \<open>Synthetic 4-way market\<close>

text \<open>
  This scanner reads the bookmaker key with \<^verbatim>\<open>bm.get("key")\<close>, with no default: the key
  and the title of its quotes can be \<^verbatim>\<open>None\<close>.
\<close>

type_synonym quote4 = "string option \<times> string option \<times> real \<times> string option"

definition bm_quote4 :: "bookmaker \<Rightarrow> real \<Rightarrow> quote4" where
  "bm_quote4 bm price =
     (b_key bm, (case b_title bm of None \<Rightarrow> b_key bm | Some t \<Rightarrow> Some t), price, b_last_update bm)"

definition h2h_row4 :: "bookmaker \<Rightarrow> outcome \<Rightarrow> (string \<times> quote4) option" where
  \<comment> \<open>\<^verbatim>\<open>if name and price\<close>: a price of 0 is dropped as a missing one is\<close>
  "h2h_row4 bm oc =
     (let name = get_or (o_name oc) [] in
      case o_price oc of
        None \<Rightarrow> None
      | Some price \<Rightarrow> if name \<noteq> [] \<and> price \<noteq> 0 then Some (name, bm_quote4 bm price) else None)"

definition totals_row4 :: "bookmaker \<Rightarrow> outcome \<Rightarrow> ((real \<times> string) \<times> quote4) option" where
  "totals_row4 bm oc =
     (let name = get_or (o_name oc) [] in
      case (o_point oc, o_price oc) of
        (Some point, Some price) \<Rightarrow>
          if name = ''Over'' \<or> name = ''Under'' then Some ((point, name), bm_quote4 bm price)
          else None
      | _ \<Rightarrow> None)"

definition four_way_attempt ::
  "py_format \<Rightarrow> string \<Rightarrow> event \<Rightarrow> string \<Rightarrow> string \<Rightarrow> real
     \<Rightarrow> quote4 \<Rightarrow> quote4 \<Rightarrow> quote4 \<Rightarrow> quote4 \<Rightarrow> py_error + opportunity list" where
  "four_way_attempt fmt sport_key ev team1 team2 line qt1 qt2 qo qu =
     (case (qt1, qt2, qo, qu) of
        ((bk_t1, bt1, ot1, lut1), (bk_t2, bt2, ot2, lut2), (bk_o, bo, oo, luo), (bk_u, bu, ou, luu)) \<Rightarrow>
          if card (set [bk_t1, bk_t2, bk_o, bk_u]) < 4 then Inr []
          else
            let odds_t1_over = ot1 * oo;
                odds_t1_under = ot1 * ou;
                odds_t2_over = ot2 * oo;
                odds_t2_under = ot2 * ou;
                bk_combo = [str_opt bk_t1 @ ''+'' @ str_opt bk_o, str_opt bk_t1 @ ''+'' @ str_opt bk_u,
                            str_opt bk_t2 @ ''+'' @ str_opt bk_o, str_opt bk_t2 @ ''+'' @ str_opt bk_u];
                leg4 = (\<lambda>label bk_title i od stk.
                  \<lparr>leg_outcome = label, leg_book = bk_title, leg_book_key = bk_combo ! i,
                   leg_odds = od, leg_stake = stk, leg_last_update = None\<rparr>)
            in nway_attempt [odds_t1_over, odds_t1_under, odds_t2_over, odds_t2_under] bk_combo
                 (indexed_legs
                    [leg4 (team1 @ '' + Over '' @ str_float fmt line)
                       (str_opt bt1 @ '' + '' @ str_opt bo) 0 odds_t1_over,
                     leg4 (team1 @ '' + Under '' @ str_float fmt line)
                       (str_opt bt1 @ '' + '' @ str_opt bu) 1 odds_t1_under,
                     leg4 (team2 @ '' + Over '' @ str_float fmt line)
                       (str_opt bt2 @ '' + '' @ str_opt bo) 2 odds_t2_over,
                     leg4 (team2 @ '' + Under '' @ str_float fmt line)
                       (str_opt bt2 @ '' + '' @ str_opt bu) 3 odds_t2_under])
                 (make_record sport_key ev (''4way_h2h+totals_'' @ str_float fmt line)
                    (NumLine line) (NWay 4) True))"

definition four_way_event :: "py_format \<Rightarrow> settings \<Rightarrow> string \<Rightarrow> event \<Rightarrow> py_error + opportunity list" where
  "four_way_event fmt cfg sport_key ev =
     (let bookmakers = event_bookmakers cfg ev;
          h2h_odds = group_rows (List.map_filter (\<lambda>(bm, mkt, oc). h2h_row4 bm oc)
                      (market_outcomes bookmakers
                         (\<lambda>mkt. m_key mkt = Some ''h2h'' \<and>
                            (let outs = get_or (m_outcomes mkt) [] in
                             length outs = 2 \<and>
                             \<not> list_ex (\<lambda>oc. py_lower (get_or (o_name oc) []) = ''draw'') outs))));
          totals_odds = group_rows (List.map_filter (\<lambda>(bm, mkt, oc). totals_row4 bm oc)
                      (market_outcomes bookmakers
                         (\<lambda>mkt. m_key mkt = Some ''totals'' \<or> m_key mkt = Some ''alternate_totals'')))
      in case h2h_odds of
           [(team1, qs_t1), (team2, qs_t2)] \<Rightarrow>
             for_emit (\<lambda>line.
               case (map_of totals_odds (line, ''Over''), map_of totals_odds (line, ''Under'')) of
                 (Some overs, Some unders) \<Rightarrow>
                   for_emit (\<lambda>qt1. for_emit (\<lambda>qt2. for_emit (\<lambda>qo. for_emit (\<lambda>qu.
                     four_way_attempt fmt sport_key ev team1 team2 line qt1 qt2 qo qu)
                     unders) overs) qs_t2) qs_t1
               | _ \<Rightarrow> Inr [])
             (first_seen (map (\<lambda>((line, side), qs). line) totals_odds))
         | _ \<Rightarrow> Inr [])"

definition scan_4way_combined_markets ::
  "py_format \<Rightarrow> settings \<Rightarrow> event list \<Rightarrow> string \<Rightarrow> py_error + opportunity list" where
  "scan_4way_combined_markets fmt cfg events sport_key =
     for_emit (four_way_event fmt cfg sport_key) events"

subsection \<open>Dynamic N-way\<close>

definition nway_row ::
  "py_format \<Rightarrow> bookmaker \<Rightarrow> outcome \<Rightarrow> (string \<times> quote \<times> string \<times> real option) option" where
  \<comment> \<open>the outcome id and the tuple \<^verbatim>\<open>(key, title, price, last_update, name, point)\<close>\<close>
  "nway_row fmt bm oc =
     (let name = py_strip (get_or (o_name oc) []);
          point = o_point oc;
          outcome_id = (case point of None \<Rightarrow> name | Some pt \<Rightarrow> name @ ''_'' @ str_float fmt pt)
      in case o_price oc of
        None \<Rightarrow> None
      | Some price \<Rightarrow>
          if name \<noteq> [] then Some (outcome_id, bm_quote bm price, name, point) else None)"

definition nway_dynamic_event ::
  "py_format \<Rightarrow> settings \<Rightarrow> string \<Rightarrow> string \<Rightarrow> int \<Rightarrow> int \<Rightarrow> event
     \<Rightarrow> py_error + opportunity list" where
  "nway_dynamic_event fmt cfg sport_key market_key min_outcomes max_outcomes ev =
     (let bookmakers = event_bookmakers cfg ev;
          outcomes_data = group_rows (List.map_filter (\<lambda>(bm, mkt, oc). nway_row fmt bm oc)
                      (market_outcomes bookmakers (\<lambda>mkt. m_key mkt = Some market_key)));
          num_outcomes = length outcomes_data
      in if int num_outcomes < min_outcomes \<or> int num_outcomes > max_outcomes then Inr []
         else
           bind (map_result (\<lambda>(outcome_id, qs). py_max_by (\<lambda>(q, name, point). q_odds q) qs)
                   outcomes_data) (\<lambda>best.
             let best_odds = map (\<lambda>(q, name, point). q_odds q) best;
                 best_books = map (\<lambda>((bk, b, od, lu), name, point). (bk, b)) best;
                 best_names = map (\<lambda>(q, name, point). name) best;
                 best_updates = map (\<lambda>((bk, b, od, lu), name, point). lu) best;
                 bookmaker_keys = map fst best_books
             in nway_attempt best_odds bookmaker_keys
                  (\<lambda>stakes. Inr (map (\<lambda>(name, od, stk, book, upd).
                       \<lparr>leg_outcome = name, leg_book = snd book, leg_book_key = fst book,
                        leg_odds = od, leg_stake = stk, leg_last_update = upd\<rparr>)
                     (zip best_names (zip best_odds (zip stakes (zip best_books best_updates))))))
                  (make_record sport_key ev market_key NoLine (NWay num_outcomes) True)))"

definition scan_nway_dynamic ::
  "py_format \<Rightarrow> settings \<Rightarrow> event list \<Rightarrow> string \<Rightarrow> string \<Rightarrow> int \<Rightarrow> int
     \<Rightarrow> py_error + opportunity list" where
  "scan_nway_dynamic fmt cfg events sport_key market_key min_outcomes max_outcomes =
     for_emit (nway_dynamic_event fmt cfg sport_key market_key min_outcomes max_outcomes) events"

subsection \<open>Running the scanners\<close>

text \<open>
  \<^verbatim>\<open>run_scanners\<close> takes the requested markets as a set. Python does not fix the order in
  which a set of strings is iterated; the model takes the markets as a list, drops the
  repetitions, and iterates the constant sets in the order the source lists them.
\<close>

definition H2H_LIKE :: "string list" where
  "H2H_LIKE =
     [''h2h'', ''h2h_p1'', ''h2h_p2'', ''h2h_p3'', ''h2h_h1'', ''h2h_h2'',
      ''h2h_q1'', ''h2h_q2'', ''h2h_q3'', ''h2h_q4'']"

definition SPREADS_LIKE :: "string list" where
  "SPREADS_LIKE =
     [''spreads'', ''spreads_h1'', ''spreads_h2'', ''spreads_q1'', ''spreads_q2'',
      ''spreads_q3'', ''spreads_q4'', ''spreads_p1'', ''spreads_p2'', ''spreads_p3'',
      ''alternate_spreads'', ''alternate_spreads_corners'', ''alternate_spreads_cards'']"

definition TOTALS_LIKE :: "string list" where
  "TOTALS_LIKE =
     [''totals'', ''totals_h1'', ''totals_h2'', ''totals_q1'', ''totals_q2'',
      ''totals_q3'', ''totals_q4'', ''totals_p1'', ''totals_p2'', ''totals_p3'',
      ''alternate_totals'', ''alternate_totals_corners'', ''alternate_totals_cards'']"

definition ICE_HOCKEY_SPORTS :: "string list" where
  "ICE_HOCKEY_SPORTS =
     [''icehockey_nhl'', ''icehockey_sweden_hockey_league'', ''icehockey_finland_liiga'',
      ''icehockey_ohl'', ''icehockey_whl'', ''icehockey_qmjhl'', ''icehockey_ahl'',
      ''icehockey_ncaa_hockey'']"

definition TEAM_TOTALS :: "string list" where
  "TEAM_TOTALS =
     [''team_totals'', ''team_totals_h1'', ''team_totals_h2'',
      ''team_totals_q1'', ''team_totals_q2'', ''team_totals_q3'', ''team_totals_q4'']"

definition extend_all :: "(py_error + 'a list) list \<Rightarrow> py_error + 'a list" where
  \<comment> \<open>successive \<^verbatim>\<open>all_arbs.extend(...)\<close>\<close>
  "extend_all results = for_emit (\<lambda>r. r) results"

definition run_scanners ::
  "py_format \<Rightarrow> settings \<Rightarrow> event list \<Rightarrow> string list \<Rightarrow> string \<Rightarrow> bool
     \<Rightarrow> py_error + opportunity list" where
  "run_scanners fmt cfg events markets sport_key safe_only =
     (let mkt = remdups markets;
          h2h_mkts = filter (\<lambda>m. m \<in> set H2H_LIKE) mkt;
          skip_totals = (safe_only \<and> sport_key \<in> set ICE_HOCKEY_SPORTS);
          spreads_mkts = filter (\<lambda>m. m \<in> set SPREADS_LIKE) mkt;
          alternate = filter (\<lambda>m. m \<in> {''alternate_spreads'', ''alternate_spreads_corners'',
                                          ''alternate_spreads_cards''}) spreads_mkts;
          regular = filter (\<lambda>m. m \<notin> set alternate) spreads_mkts
      in extend_all
        [if ENABLE_3WAY cfg \<and> ''h2h'' \<in> set mkt then scan_h2h_3way cfg events sport_key ''h2h''
         else Inr [],
         if h2h_mkts \<noteq> [] then scan_h2h cfg events sport_key h2h_mkts else Inr [],
         if \<not> skip_totals then
           for_emit (\<lambda>mk.
             if mk \<in> set mkt then
               if mk = ''alternate_totals'' then
                 extend_all [scan_alternate_totals_enhanced cfg events sport_key,
                             scan_cross_line_opportunities fmt cfg events sport_key]
               else scan_totals cfg events sport_key mk
             else Inr []) TOTALS_LIKE
         else Inr [],
         if \<not> skip_totals then
           for_emit (\<lambda>mk.
             if mk \<in> set mkt then scan_team_totals cfg events sport_key mk else Inr []) TEAM_TOTALS
         else Inr [],
         if spreads_mkts \<noteq> [] then
           extend_all
             [if regular \<noteq> [] then scan_spreads fmt cfg events sport_key regular else Inr [],
              if ''alternate_spreads'' \<in> set alternate then
                extend_all [scan_alternate_spreads_enhanced fmt cfg events sport_key,
                            scan_asian_handicap fmt cfg events sport_key]
              else Inr []]
         else Inr [],
         if ''btts'' \<in> set mkt then scan_btts cfg events sport_key else Inr [],
         if ''draw_no_bet'' \<in> set mkt then scan_draw_no_bet cfg events sport_key else Inr [],
         if ''double_chance'' \<in> set mkt then scan_double_chance cfg events sport_key else Inr [],
         if ENABLE_4WAY cfg then scan_4way_combined_markets fmt cfg events sport_key else Inr [],
         if MAX_NWAY cfg \<ge> 5 then
           for_emit (\<lambda>mk. scan_nway_dynamic fmt cfg events sport_key mk 5 (min (MAX_NWAY cfg) 20))
             (sort mkt)
         else Inr []])"

section \<open>The aggregator\<close>

text \<open>
  The end of \<^verbatim>\<open>main\<close>, from the list of all discovered opportunities to the list it
  prints: the commence-time filter, the profit band, the deduplication, the scaling of
  the stakes and the final sort. The commence-time test reads the clock and parses a
  date; it is a parameter. The command-line arguments are a record.
\<close>

record arguments =
  min_profit :: real
  max_profit :: real
  no_dedupe :: bool
  max_stake :: real

type_synonym dedupe_key = "string \<times> string \<times> line_val \<times> arb_kind"

definition key_of :: "opportunity \<Rightarrow> dedupe_key" where
  \<comment> \<open>\<^verbatim>\<open>(a["event_id"], a["market"], a.get("line"), a.get("arb_type", "2-way"))\<close>\<close>
  "key_of a = (op_event_id a, op_market a, op_line a, op_arb_type a)"

fun dict_set :: "'k \<Rightarrow> 'v \<Rightarrow> ('k \<times> 'v) list \<Rightarrow> ('k \<times> 'v) list" where
  \<comment> \<open>\<^verbatim>\<open>d[k] = v\<close>: a key already in the dict keeps its place\<close>
  "dict_set k v [] = [(k, v)]"
| "dict_set k v ((k', v') # rest) =
     (if k = k' then (k, v) # rest else (k', v') # dict_set k v rest)"

definition dedupe_step :: "(dedupe_key \<times> opportunity) list \<Rightarrow> opportunity \<Rightarrow> (dedupe_key \<times> opportunity) list" where
  \<comment> \<open>\<^verbatim>\<open>if key not in by_key or a["profit_pct"] > by_key[key]["profit_pct"]: by_key[key] = a\<close>\<close>
  "dedupe_step by_key a =
     (let k = key_of a in
      case map_of by_key k of
        None \<Rightarrow> dict_set k a by_key
      | Some b \<Rightarrow> if op_profit_pct a > op_profit_pct b then dict_set k a by_key else by_key)"

definition dedupe :: "opportunity list \<Rightarrow> opportunity list" where
  "dedupe all_arbs = map snd (foldl dedupe_step [] all_arbs)"

definition scale_stakes :: "real \<Rightarrow> opportunity \<Rightarrow> opportunity" where
  \<comment> \<open>for an \<^verbatim>\<open>arb_type\<close> that ends with \<^verbatim>\<open>"-way"\<close>: the fields \<^verbatim>\<open>stake_1 .. stake_n\<close>
      and the total are multiplied by the scale. A 2-way dict names its stakes
      \<^verbatim>\<open>stake_a, stake_b\<close>, which the loop does not touch (it adds \<^verbatim>\<open>stake_1\<close> and
      \<^verbatim>\<open>stake_2\<close>, both 0, which the record does not hold)\<close>
  "scale_stakes scale a =
     (case op_arb_type a of
        NWay n \<Rightarrow>
          a\<lparr>op_legs :=
               (if op_indexed a
                then map (\<lambda>(i, l). if i < n then l\<lparr>leg_stake := leg_stake l * scale\<rparr> else l)
                       (enumerate 0 (op_legs a))
                else op_legs a),
             op_total_stake := op_total_stake a * scale\<rparr>
      | _ \<Rightarrow> a)"

definition aggregate :: "(opportunity \<Rightarrow> bool) \<Rightarrow> arguments \<Rightarrow> opportunity list \<Rightarrow> opportunity list" where
  "aggregate commence_ok args all_arbs =
     (let arbs1 = filter commence_ok all_arbs;
          arbs2 = filter (\<lambda>a. min_profit args \<le> op_profit_pct a \<and> op_profit_pct a \<le> max_profit args)
                    arbs1;
          arbs3 = (if \<not> no_dedupe args then dedupe arbs2 else arbs2);
          scale = (if max_stake args \<noteq> 0 then max_stake args / 100 else 1);
          arbs4 = map (scale_stakes scale) arbs3
      in sort_key (\<lambda>a. - op_profit_pct a) arbs4)"

text \<open>
  The order the claim gives: deduplicate all discovered opportunities first, then apply
  the band. It is here to be compared with \<open>aggregate\<close>.
\<close>

definition aggregate_dedupe_first ::
  "(opportunity \<Rightarrow> bool) \<Rightarrow> arguments \<Rightarrow> opportunity list \<Rightarrow> opportunity list" where
  "aggregate_dedupe_first commence_ok args all_arbs =
     (let arbs1 = filter commence_ok all_arbs;
          arbs2 = (if \<not> no_dedupe args then dedupe arbs1 else arbs1);
          arbs3 = filter (\<lambda>a. min_profit args \<le> op_profit_pct a \<and> op_profit_pct a \<le> max_profit args)
                    arbs2;
          scale = (if max_stake args \<noteq> 0 then max_stake args / 100 else 1);
          arbs4 = map (scale_stakes scale) arbs3
      in sort_key (\<lambda>a. - op_profit_pct a) arbs4)"

section \<open>Properties of the calculators\<close>

lemma bind_Inr [simp]: "bind (Inr x) f = f x"
  by (simp add: bind_def)

lemma bind_Inl [simp]: "bind (Inl e) f = Inl e"
  by (simp add: bind_def)

lemma fdiv_nonzero [simp]: "b \<noteq> 0 \<Longrightarrow> fdiv a b = Inr (a / b)"
  by (simp add: fdiv_def)

lemma py_sum_eq_sum_list: "py_sum xs = sum_list xs"
proof -
  have "foldl (+) a xs = a + sum_list xs" for a :: real
    by (induction xs arbitrary: a) (simp_all add: add.assoc)
  from this [of 0] show ?thesis by (simp add: py_sum_def)
qed

lemma map_result_nonzero:
  "\<forall>x \<in> set xs. g x \<noteq> 0 \<Longrightarrow> map_result (\<lambda>x. fdiv a (g x)) xs = Inr (map (\<lambda>x. a / g x) xs)"
  by (induction xs) simp_all

lemma commission_cases:
  "dict_get EXCHANGE_COMMISSION k 0 \<in> {0, 5 / 100, 2 / 100, 15 / 1000}"
  by (simp add: dict_get_def EXCHANGE_COMMISSION_def)

lemma commission_range:
  "0 \<le> dict_get EXCHANGE_COMMISSION k 0 \<and> dict_get EXCHANGE_COMMISSION k 0 < 1"
  using commission_cases [of k] by auto

lemma adjust_formula:
  "adjust_odds_for_commission odds k = 1 + (odds - 1) * (1 - dict_get EXCHANGE_COMMISSION k 0)"
  by (simp add: adjust_odds_for_commission_def Let_def)

lemma adjust_gt_1: "1 < odds \<Longrightarrow> 1 < adjust_odds_for_commission odds k"
  using commission_range [of k] by (simp add: adjust_formula)

lemma effective_odds_gt_1:
  "\<forall>x \<in> set odds_list. 1 < x \<Longrightarrow> \<forall>e \<in> set (effective_odds_of odds_list keys). 1 < e"
  by (auto simp: effective_odds_of_def adjust_gt_1 split: option.splits dest!: set_zip_leftD)

lemma effective_odds_length [simp]:
  "length (effective_odds_of odds_list keys) = length odds_list"
  by (simp add: effective_odds_of_def split: option.splits)

lemma inv_sum_nonneg:
  "\<forall>e \<in> set es. 1 < e \<Longrightarrow> 0 \<le> sum_list (map (\<lambda>e. 1 / e) (es :: real list))"
  by (induction es) auto

lemma inv_sum_pos:
  "es \<noteq> [] \<Longrightarrow> \<forall>e \<in> set es. 1 < e \<Longrightarrow> 0 < sum_list (map (\<lambda>e. 1 / e) (es :: real list))"
  using inv_sum_nonneg [of "tl es"] by (cases es) (auto intro: add_pos_nonneg)

lemma calc_nway_arb_eval:
  assumes ne: "odds_list \<noteq> []" and gt: "\<forall>x \<in> set odds_list. 1 < x"
  shows "calc_nway_arb odds_list keys =
     (let es = effective_odds_of odds_list keys; s = sum_list (map (\<lambda>e. 1 / e) es)
      in if s \<ge> 1 then Inr None
         else Inr (Some (map (\<lambda>e. 100 / (e * s)) es, sum_list (map (\<lambda>e. 100 / (e * s)) es))))"
proof -
  define es where "es = effective_odds_of odds_list keys"
  define s where "s = sum_list (map (\<lambda>e. 1 / e) es)"
  have es1: "\<forall>e \<in> set es. 1 < e"
    using effective_odds_gt_1 [OF gt] by (simp add: es_def)
  have "length es = length odds_list" by (simp add: es_def)
  with ne have es_ne: "es \<noteq> []" by (metis length_0_conv)
  have s: "0 < s" unfolding s_def by (rule inv_sum_pos [OF es_ne es1])
  have invs: "map_result (\<lambda>od. fdiv 1 od) es = Inr (map (\<lambda>e. 1 / e) es)"
    using es1 by (intro map_result_nonzero [where g = "\<lambda>e. e"]) auto
  have stakes: "map_result (\<lambda>od. fdiv 100 (od * s)) es = Inr (map (\<lambda>e. 100 / (e * s)) es)"
    using es1 s by (intro map_result_nonzero [where g = "\<lambda>e. e * s"]) auto
  have guard: "\<not> (odds_list = [] \<or> list_ex (\<lambda>od. od \<le> 1) odds_list)"
    using ne gt by (auto simp: list_ex_iff)
  show ?thesis
    unfolding calc_nway_arb_def Let_def es_def [symmetric]
    using guard by (simp add: invs stakes py_sum_eq_sum_list s_def [symmetric])
qed

subsection \<open>The commission adjustment\<close>

text \<open>
  Claim C5. For every odds value and every bookmaker key the adjustment returns
  \<open>1 + (odds - 1) * (1 - c)\<close>, with \<open>c\<close> the rate recorded for the key in
  \<open>EXCHANGE_COMMISSION\<close> and 0 for a key with no entry; a key with no entry, the empty
  key among them, leaves the odds unchanged; every recorded rate lies in \<open>[0, 1)\<close>.
\<close>

theorem adjust_odds_for_commission_spec:
  "adjust_odds_for_commission odds k = 1 + (odds - 1) * (1 - dict_get EXCHANGE_COMMISSION k 0) \<and>
   (map_of EXCHANGE_COMMISSION k = None \<longrightarrow>
      dict_get EXCHANGE_COMMISSION k 0 = 0 \<and> adjust_odds_for_commission odds k = odds) \<and>
   map_of EXCHANGE_COMMISSION '''' = None \<and>
   (\<forall>(k', c) \<in> set EXCHANGE_COMMISSION. 0 \<le> c \<and> c < 1)"
  by (simp add: adjust_formula)
    (simp add: adjust_odds_for_commission_def dict_get_def EXCHANGE_COMMISSION_def)

text \<open>
  The adjustment at an exchange, at a fixed-odds book with no entry, and at the empty key.
\<close>

theorem adjust_odds_for_commission_spec_witness:
  "adjust_odds_for_commission 3 ''smarkets'' = 296 / 100 \<and>
   map_of EXCHANGE_COMMISSION ''bet365'' = None \<and>
   adjust_odds_for_commission 3 ''bet365'' = 3 \<and>
   adjust_odds_for_commission 3 '''' = 3 \<and>
   (''matchbook'', 15 / 1000) \<in> set EXCHANGE_COMMISSION"
  using adjust_odds_for_commission_spec [of 3 "''smarkets''"]
    adjust_odds_for_commission_spec [of 3 "''bet365''"]
    adjust_odds_for_commission_spec [of 3 "''''"]
  by (simp add: dict_get_def EXCHANGE_COMMISSION_def)

text \<open>
  Claim C8. For odds above 1 and two bookmaker keys whose recorded rates satisfy
  \<open>c1 < c2\<close>, the effective odds under the higher rate are strictly smaller, and the
  2-way profit percentage against a fixed second leg (any positive odds at any
  bookmaker) is computed without error and is strictly smaller under the higher rate.
\<close>

theorem commission_monotonic:
  assumes odds: "1 < odds"
    and rates: "dict_get EXCHANGE_COMMISSION k1 0 < dict_get EXCHANGE_COMMISSION k2 0"
    and leg_b: "0 < odds_b"
  shows "adjust_odds_for_commission odds k2 < adjust_odds_for_commission odds k1 \<and>
         (\<exists>p1 p2. arb_profit_pct odds odds_b k1 kb = Inr p1 \<and>
                  arb_profit_pct odds odds_b k2 kb = Inr p2 \<and> p2 < p1)"
proof -
  define e1 where "e1 = adjust_odds_for_commission odds k1"
  define e2 where "e2 = adjust_odds_for_commission odds k2"
  define eb where "eb = adjust_odds_for_commission odds_b kb"
  have lt: "e2 < e1"
    using odds rates by (simp add: e1_def e2_def adjust_formula)
  have e2: "1 < e2" using adjust_gt_1 [OF odds] by (simp add: e2_def)
  have e1: "1 < e1" using lt e2 by simp
  have eb: "0 < eb"
  proof -
    let ?c = "dict_get EXCHANGE_COMMISSION kb 0"
    have "eb = odds_b * (1 - ?c) + ?c" by (simp add: eb_def adjust_formula algebra_simps)
    moreover have "0 < odds_b * (1 - ?c)" using leg_b commission_range [of kb] by simp
    ultimately show ?thesis using commission_range [of kb] by linarith
  qed
  have inv_lt: "1 / e1 + 1 / eb < 1 / e2 + 1 / eb"
    using lt e1 e2 by (simp add: frac_less2)
  have pos1: "0 < 1 / e1 + 1 / eb" using e1 eb by (simp add: add_pos_pos)
  have pos2: "0 < 1 / e2 + 1 / eb" using e2 eb by (simp add: add_pos_pos)
  have p: "1 / (1 / e2 + 1 / eb) < 1 / (1 / e1 + 1 / eb)"
    using inv_lt pos1 by (simp add: frac_less2)
  have r1: "arb_profit_pct odds odds_b k1 kb = Inr (100 * (1 / (1 / e1 + 1 / eb) - 1))"
    using e1 eb pos1 by (simp add: arb_profit_pct_def Let_def e1_def [symmetric] eb_def [symmetric])
  have r2: "arb_profit_pct odds odds_b k2 kb = Inr (100 * (1 / (1 / e2 + 1 / eb) - 1))"
    using e2 eb pos2 by (simp add: arb_profit_pct_def Let_def e2_def [symmetric] eb_def [symmetric])
  show ?thesis
    using lt p by (simp add: r1 r2 e1_def [symmetric] e2_def [symmetric])
qed

text \<open>
  Odds 3 at Smarkets (2 percent) and at Betdaq (5 percent), against odds 2 at a book with no commission.
\<close>

theorem commission_monotonic_witness:
  "adjust_odds_for_commission 3 ''betdaq'' < adjust_odds_for_commission 3 ''smarkets'' \<and>
   arb_profit_pct 3 2 ''smarkets'' ''bet365'' = Inr (600 / 31) \<and>
   arb_profit_pct 3 2 ''betdaq'' ''bet365'' = Inr (900 / 49)"
  using commission_monotonic [of 3 "''smarkets''" "''betdaq''" 2 "''bet365''"]
  by (simp add: arb_profit_pct_def adjust_odds_for_commission_def dict_get_def
      EXCHANGE_COMMISSION_def Let_def)

subsection \<open>The pairwise calculator\<close>

text \<open>
  Claim C1. With \<open>ea\<close>, \<open>eb\<close> the commission-adjusted odds and \<open>s = 1/ea + 1/eb\<close>,
  the pairwise calculator returns no result exactly when \<open>a \<le> 1\<close> or \<open>b \<le> 1\<close> or
  \<open>s \<ge> 1\<close>; otherwise it returns the stakes \<open>100/(ea*s)\<close> and \<open>100/(eb*s)\<close> with their
  sum as the total, and both legs pay out the same. It never raises.
\<close>

theorem calc_arb_equal_payout_spec:
  "let ea = adjust_odds_for_commission a ka; eb = adjust_odds_for_commission b kb;
       s = 1 / ea + 1 / eb
   in (calc_arb_equal_payout (Some a) (Some b) ka kb = Inr None \<longleftrightarrow> a \<le> 1 \<or> b \<le> 1 \<or> s \<ge> 1) \<and>
      (\<not> (a \<le> 1 \<or> b \<le> 1 \<or> s \<ge> 1) \<longrightarrow>
         calc_arb_equal_payout (Some a) (Some b) ka kb =
           Inr (Some (100 / (ea * s), 100 / (eb * s), 100 / (ea * s) + 100 / (eb * s))) \<and>
         100 / (ea * s) * ea = 100 / (eb * s) * eb)"
proof (cases "a \<le> 1 \<or> b \<le> 1")
  case True
  then show ?thesis by (auto simp: calc_arb_equal_payout_def Let_def)
next
  case False
  then have a: "1 < a" and b: "1 < b" by auto
  define ea where "ea = adjust_odds_for_commission a ka"
  define eb where "eb = adjust_odds_for_commission b kb"
  have ea: "1 < ea" and eb: "1 < eb"
    using adjust_gt_1 [OF a, of ka] adjust_gt_1 [OF b, of kb] by (simp_all add: ea_def eb_def)
  have s: "0 < 1 / ea + 1 / eb" using ea eb by (simp add: add_pos_pos)
  have calc: "calc_arb_equal_payout (Some a) (Some b) ka kb =
      (if 1 / ea + 1 / eb \<ge> 1 then Inr None
       else Inr (Some (100 / ea / (1 / ea + 1 / eb), 100 / eb / (1 / ea + 1 / eb),
              100 / ea / (1 / ea + 1 / eb) + 100 / eb / (1 / ea + 1 / eb))))"
    using a b ea eb s by (simp add: calc_arb_equal_payout_def Let_def ea_def [symmetric] eb_def [symmetric])
  have pay: "100 / (ea * (1 / ea + 1 / eb)) * ea = 100 / (eb * (1 / ea + 1 / eb)) * eb"
  proof -
    have "100 / (e * t) * e = 100 / t" if "e \<noteq> 0" for e t :: real
      using that by simp
    from this [of ea] this [of eb] ea eb show ?thesis by simp
  qed
  show ?thesis
    using a b calc pay unfolding Let_def ea_def [symmetric] eb_def [symmetric]
    by (simp add: divide_divide_eq_left)
qed

text \<open>
  Odds 2.10 at a book with no commission against 2.05 at a Betfair exchange (5 percent).
\<close>

theorem calc_arb_equal_payout_spec_witness:
  "calc_arb_equal_payout (Some (21 / 10)) (Some (41 / 20)) '''' ''betfair_ex_uk'' =
     Inr (Some (79900 / 1639, 84000 / 1639, 100))"
  using calc_arb_equal_payout_spec [of "21 / 10" "''''" "41 / 20" "''betfair_ex_uk''"]
  by (simp add: Let_def adjust_odds_for_commission_def dict_get_def EXCHANGE_COMMISSION_def)

subsection \<open>The N-way calculator\<close>

text \<open>
  Claim C2. For a non-empty odds list and a key list of the same length, with \<open>es\<close> the
  commission-adjusted odds and \<open>s\<close> the sum of their reciprocals, the N-way calculator
  returns no result exactly when some odds value is at most 1 or \<open>s \<ge> 1\<close>; otherwise it
  returns the stakes \<open>100/(e*s)\<close>, each paying out \<open>100/s\<close>, and the sum of the stakes.
\<close>

theorem calc_nway_arb_spec:
  assumes "odds_list \<noteq> []" and "length keys = length odds_list"
  shows "let es = map (\<lambda>(od, bk). adjust_odds_for_commission od bk) (zip odds_list keys);
             s = sum_list (map (\<lambda>e. 1 / e) es)
         in (calc_nway_arb odds_list (Some keys) = Inr None \<longleftrightarrow>
               (\<exists>x \<in> set odds_list. x \<le> 1) \<or> s \<ge> 1) \<and>
            (\<not> ((\<exists>x \<in> set odds_list. x \<le> 1) \<or> s \<ge> 1) \<longrightarrow>
               calc_nway_arb odds_list (Some keys) =
                 Inr (Some (map (\<lambda>e. 100 / (e * s)) es, sum_list (map (\<lambda>e. 100 / (e * s)) es))) \<and>
               (\<forall>i < length es. 100 / (es ! i * s) * es ! i = 100 / s))"
proof (cases "\<exists>x \<in> set odds_list. x \<le> 1")
  case True
  then show ?thesis by (auto simp: calc_nway_arb_def Let_def list_ex_iff)
next
  case False
  then have gt: "\<forall>x \<in> set odds_list. 1 < x" by auto
  have eff: "effective_odds_of odds_list (Some keys) =
      map (\<lambda>(od, bk). adjust_odds_for_commission od bk) (zip odds_list keys)"
    using assms by (auto simp: effective_odds_of_def)
  define es where "es = map (\<lambda>(od, bk). adjust_odds_for_commission od bk) (zip odds_list keys)"
  define s where "s = sum_list (map (\<lambda>e. 1 / e) es)"
  have nz: "\<forall>e \<in> set es. e \<noteq> 0"
    using effective_odds_gt_1 [OF gt, of "Some keys"] unfolding eff es_def [symmetric] by fastforce
  have pay: "\<forall>i < length es. 100 / (es ! i * s) * es ! i = 100 / s"
    using nz by simp
  have calc: "calc_nway_arb odds_list (Some keys) =
      (if s \<ge> 1 then Inr None
       else Inr (Some (map (\<lambda>e. 100 / (e * s)) es, sum_list (map (\<lambda>e. 100 / (e * s)) es))))"
    by (simp add: calc_nway_arb_eval [OF assms(1) gt] eff Let_def es_def [symmetric]
        s_def [symmetric])
  show ?thesis
    unfolding Let_def es_def [symmetric] s_def [symmetric]
    using False pay by (simp add: calc)
qed

text \<open>
  Four outcomes with reciprocal sum above 1 give no result; three outcomes at odds 5 give equal stakes.
\<close>

theorem calc_nway_arb_spec_witness:
  "calc_nway_arb [4, 4, 4, 2] (Some [''smarkets'', ''bet365'', ''pinnacle'', ''betway'']) = Inr None \<and>
   calc_nway_arb [5, 5, 5] (Some [''bet365'', ''pinnacle'', ''betway'']) =
     Inr (Some ([100 / 3, 100 / 3, 100 / 3], 100))"
  using calc_nway_arb_spec [of "[4, 4, 4, 2]" "[''smarkets'', ''bet365'', ''pinnacle'', ''betway'']"]
    calc_nway_arb_spec [of "[5, 5, 5]" "[''bet365'', ''pinnacle'', ''betway'']"]
  by (simp add: Let_def adjust_odds_for_commission_def dict_get_def EXCHANGE_COMMISSION_def)

text \<open>
  Claim C4. On two odds and two keys the N-way calculator agrees with the pairwise
  calculator: both return no result, or the same two stakes and the same total.
\<close>

theorem nway_two_agrees_with_pairwise:
  "calc_nway_arb [a, b] (Some [ka, kb]) =
     (case calc_arb_equal_payout (Some a) (Some b) ka kb of
        Inl e \<Rightarrow> Inl e
      | Inr None \<Rightarrow> Inr None
      | Inr (Some (stake_a, stake_b, tot)) \<Rightarrow> Inr (Some ([stake_a, stake_b], tot)))"
proof (cases "a \<le> 1 \<or> b \<le> 1")
  case True
  then show ?thesis by (auto simp: calc_nway_arb_def calc_arb_equal_payout_def)
next
  case False
  then have a: "1 < a" and b: "1 < b" by auto
  have ea: "1 < adjust_odds_for_commission a ka" and eb: "1 < adjust_odds_for_commission b kb"
    using adjust_gt_1 [OF a] adjust_gt_1 [OF b] by simp_all
  have s: "0 < 1 / adjust_odds_for_commission a ka + 1 / adjust_odds_for_commission b kb"
    using ea eb by (simp add: add_pos_pos)
  have gt: "\<forall>x \<in> set [a, b]. 1 < x" using a b by simp
  show ?thesis
    using a b ea eb s
    by (simp add: calc_nway_arb_eval [OF _ gt] calc_arb_equal_payout_def effective_odds_of_def
        Let_def divide_divide_eq_left)
qed

text \<open>
  Claim C10. The N-way calculator has no minimum of two outcomes: on a single odds value
  above 1 with no bookmaker keys it returns the stake list \<open>[100]\<close> and the total 100.
\<close>

theorem calc_nway_arb_single_outcome:
  "1 < x \<Longrightarrow> calc_nway_arb [x] None = Inr (Some ([100], 100))"
proof -
  assume x: "1 < x"
  then have gt: "\<forall>y \<in> set [x]. 1 < y" by simp
  show ?thesis
    using x by (simp add: calc_nway_arb_eval [OF _ gt] effective_odds_of_def Let_def)
qed

text \<open>
  A single outcome at odds 3.
\<close>

theorem calc_nway_arb_single_outcome_witness:
  "(1::real) < 3 \<and> calc_nway_arb [3] None = Inr (Some ([100], 100))"
  using calc_nway_arb_single_outcome [of 3] by simp

end
